theory Spec2Isabelle
  imports Complex_Main "HOL-Library.AList"
begin

section \<open>JavaScript values that occur in the aggregation document\<close>

text \<open>
  The functions of \<^verbatim>\<open>aggregation.ts\<close> and \<^verbatim>\<open>view.ts\<close> compute with JavaScript
  numbers. Time stamps (epoch seconds), counters and the configured width of a bucket are
  integers; they are modelled as \<open>int\<close>. The configured number of buckets is compared
  with the length of an array and is modelled as \<open>nat\<close>. Two operations of the source
  leave the integers:
  \<^item> \<^verbatim>\<open>slot[type]++\<close> on a key that holds no number stores \<^verbatim>\<open>NaN\<close> under that key
    (\<^verbatim>\<open>undefined + 1\<close>), and on the key \<^verbatim>\<open>bounds\<close> it replaces the bounds object by
    \<^verbatim>\<open>NaN\<close>; a bucket derived from such a bucket has the bounds \<^verbatim>\<open>NaN\<close>;
  \<^item> the division of the view, whose divisor can be zero.
  Both are part of the model. What is not modelled is the rounding of numbers beyond
  \<open>2\<^sup>5\<^sup>3\<close> and of quotients to double precision: sums are exact and a quotient is the
  exact rational number.
\<close>

datatype jsnum = Number int | NaN

text \<open>The result of reading a property: \<open>None\<close> is \<^verbatim>\<open>undefined\<close>.\<close>

type_synonym jsprop = "jsnum option"

text \<open>\<^verbatim>\<open>ToNumber\<close>: \<^verbatim>\<open>undefined\<close> becomes \<^verbatim>\<open>NaN\<close>.\<close>

fun ToNumber :: "jsprop \<Rightarrow> jsnum" where
  "ToNumber None = NaN"
| "ToNumber (Some v) = v"

text \<open>\<^verbatim>\<open>a + b\<close> and \<^verbatim>\<open>a > b\<close> on numbers: \<^verbatim>\<open>NaN\<close> is absorbing and compares false.\<close>

fun js_add :: "jsnum \<Rightarrow> jsnum \<Rightarrow> jsnum" where
  "js_add (Number a) (Number b) = Number (a + b)"
| "js_add _ _ = NaN"

fun js_sub :: "jsnum \<Rightarrow> jsnum \<Rightarrow> jsnum" where
  "js_sub (Number a) (Number b) = Number (a - b)"
| "js_sub _ _ = NaN"

fun js_gt :: "jsnum \<Rightarrow> jsnum \<Rightarrow> bool" where
  "js_gt (Number a) (Number b) = (a > b)"
| "js_gt _ _ = False"

section \<open>The slot model (\<^verbatim>\<open>aggregation.ts\<close>, lines 4 to 35)\<close>

text \<open>
  \<^verbatim>\<open>bounds\<close> is an object with the fields \<^verbatim>\<open>start\<close> and \<^verbatim>\<open>end\<close>, until
  \<^verbatim>\<open>slot['bounds']++\<close> overwrites it with the number \<^verbatim>\<open>NaN\<close>.
\<close>

datatype jsbounds = Bounds jsnum jsnum | BoundsNaN

text \<open>\<^verbatim>\<open>bounds.start\<close> and \<^verbatim>\<open>bounds.end\<close>; a number has neither property.\<close>

fun bounds_start :: "jsbounds \<Rightarrow> jsprop" where
  "bounds_start (Bounds s e) = Some s"
| "bounds_start BoundsNaN = None"

fun bounds_end :: "jsbounds \<Rightarrow> jsprop" where
  "bounds_end (Bounds s e) = Some e"
| "bounds_end BoundsNaN = None"

text \<open>
  \<^verbatim>\<open>interface TemporalSlot\<close>: the bounds, the four declared counters, and the
  properties admitted by the index signature \<^verbatim>\<open>[prop: string]: any\<close>, in the order of
  their insertion.
\<close>

record TemporalSlot =
  bounds :: jsbounds
  WALK :: int
  WHEELS :: int
  TRANSIT :: int
  CAR :: int
  props :: "(string \<times> jsnum) list"

text \<open>\<^verbatim>\<open>interface Event\<close>: an entry of the overflow buffer.\<close>

record Event =
  type :: string
  timestamp :: int

definition CreateTemporalSlot :: "jsnum \<Rightarrow> jsnum \<Rightarrow> TemporalSlot" where
  "CreateTemporalSlot start end' =
     \<lparr>bounds = Bounds start end', WALK = 0, WHEELS = 0, TRANSIT = 0, CAR = 0, props = []\<rparr>"

text \<open>The keys of the four declared counters.\<close>

definition categories :: "string list" where
  "categories = [''WALK'', ''WHEELS'', ''TRANSIT'', ''CAR'']"

text \<open>\<^verbatim>\<open>slot[key]\<close> where the value is a number; \<open>None\<close> otherwise (\<^verbatim>\<open>undefined\<close>, or
  the bounds object, which \<^verbatim>\<open>ToNumber\<close> also sends to \<^verbatim>\<open>NaN\<close>).\<close>

definition counter :: "string \<Rightarrow> TemporalSlot \<Rightarrow> jsprop" where
  "counter key slot =
     (if key = ''WALK'' then Some (Number (WALK slot))
      else if key = ''WHEELS'' then Some (Number (WHEELS slot))
      else if key = ''TRANSIT'' then Some (Number (TRANSIT slot))
      else if key = ''CAR'' then Some (Number (CAR slot))
      else if key = ''bounds'' then (case bounds slot of Bounds s e \<Rightarrow> None | BoundsNaN \<Rightarrow> Some NaN)
      else map_of (props slot) key)"

text \<open>
  \<^verbatim>\<open>slot[key]++\<close>: the old value is converted to a number, one is added and the sum
  is stored under the key. The bounds object converts to \<^verbatim>\<open>NaN\<close>, as does a missing
  property. The key \<^verbatim>\<open>__proto__\<close> is an accessor of every object: its setter ignores a
  number, and the slot stays as it is.
\<close>

definition increment :: "string \<Rightarrow> TemporalSlot \<Rightarrow> TemporalSlot" where
  "increment key slot =
     (if key = ''WALK'' then slot\<lparr>WALK := WALK slot + 1\<rparr>
      else if key = ''WHEELS'' then slot\<lparr>WHEELS := WHEELS slot + 1\<rparr>
      else if key = ''TRANSIT'' then slot\<lparr>TRANSIT := TRANSIT slot + 1\<rparr>
      else if key = ''CAR'' then slot\<lparr>CAR := CAR slot + 1\<rparr>
      else if key = ''bounds'' then slot\<lparr>bounds := BoundsNaN\<rparr>
      else if key = ''__proto__'' then slot
      else slot\<lparr>props :=
        AList.update key (js_add (ToNumber (map_of (props slot) key)) (Number 1)) (props slot)\<rparr>)"

section \<open>The aggregation document and the transaction\<close>

text \<open>The fields of the document \<^verbatim>\<open>aggregations/{aggregationId}\<close> that the functions read
  and write.\<close>

record Aggregate =
  slots :: "TemporalSlot list"
  overflow :: "Event list"

text \<open>The created stream document: its fields \<^verbatim>\<open>type\<close> and \<^verbatim>\<open>timestamp\<close> and the
  seconds of its server-assigned \<^verbatim>\<open>createTime\<close>.\<close>

record StreamEvent =
  event_type :: string
  event_timestamp :: int
  createTime :: int

text \<open>
  The objects of one invocation live in a heap: a list of slot objects addressed by their
  index. The array \<^verbatim>\<open>slots\<close> is a list of references, so that a mutation through one
  reference (\<^verbatim>\<open>nextSlot\<close>, \<^verbatim>\<open>slot\<close>) is seen through the array exactly when the array
  still holds that reference.
\<close>

type_synonym ref = nat
type_synonym heap = "TemporalSlot list"

text \<open>\<^verbatim>\<open>aggregate.get('slots')\<close>: one fresh object for each stored slot.\<close>

definition load :: "TemporalSlot list \<Rightarrow> heap \<times> ref list" where
  "load stored = (stored, [0..<length stored])"

text \<open>A new object: its reference is the next free index.\<close>

definition alloc :: "heap \<Rightarrow> TemporalSlot \<Rightarrow> heap \<times> ref" where
  "alloc h slot = (h @ [slot], length h)"

text \<open>What \<^verbatim>\<open>transaction.update\<close> serialises: the objects the array refers to.\<close>

definition snapshot :: "heap \<Rightarrow> ref list \<Rightarrow> TemporalSlot list" where
  "snapshot h refs = map (\<lambda>r. h ! r) refs"

text \<open>
  A transaction buffers the updates its body issues. \<^verbatim>\<open>runTransaction\<close> belongs to the
  document store: it hands the body the stored document (\<open>None\<close> when it does not exist),
  and commits the buffered updates only when the body returns; when the body throws,
  nothing is written. The model is one attempt of one transaction, without a concurrent
  writer. \<^verbatim>\<open>transaction.update\<close> replaces the named fields of an existing document and
  fails on a document that does not exist.
\<close>

datatype error = DocumentDoesNotExist | NotFound

record transaction =
  writes :: "Aggregate list"

definition update :: "Aggregate \<Rightarrow> transaction \<Rightarrow> transaction" where
  "update data tx = tx\<lparr>writes := writes tx @ [data]\<rparr>"

fun commit :: "Aggregate list \<Rightarrow> Aggregate option \<Rightarrow> error + Aggregate option" where
  "commit [] stored = Inr stored"
| "commit (data # ws) stored =
     (case stored of None \<Rightarrow> Inl NotFound | Some old \<Rightarrow> commit ws (Some data))"

definition runTransaction ::
  "(Aggregate option \<Rightarrow> transaction \<Rightarrow> (error + unit) \<times> transaction) \<Rightarrow>
   Aggregate option \<Rightarrow> (error + unit) \<times> Aggregate option" where
  "runTransaction updateFunction stored =
     (case updateFunction stored \<lparr>writes = []\<rparr> of
        (Inl e, tx) \<Rightarrow> (Inl e, stored)
      | (Inr u, tx) \<Rightarrow>
          (case commit (writes tx) stored of
             Inl e \<Rightarrow> (Inl e, stored)
           | Inr stored' \<Rightarrow> (Inr u, stored')))"

section \<open>The aggregation engine (\<^verbatim>\<open>aggregation.ts\<close>, lines 44 to 141)\<close>

subsection \<open>An event is added\<close>

text \<open>Lines 63 to 65: without a slot, the first one starts at the event's creation.\<close>

definition first_slot :: "int \<Rightarrow> int \<Rightarrow> heap \<Rightarrow> ref list \<Rightarrow> heap \<times> ref list" where
  "first_slot timespanSecs now h slots' =
     (if length slots' = 0
      then (let (h', r) = alloc h (CreateTemporalSlot (Number now) (Number (now + timespanSecs - 1)))
            in (h', slots' @ [r]))
      else (h, slots'))"

text \<open>
  Lines 67 to 76: the event is pushed to the overflow when it was created after the end
  of the last bucket, and counted in the last bucket otherwise. The overflow entry
  carries the \<^verbatim>\<open>timestamp\<close> field of the event, the comparison uses its creation time.
\<close>

definition count_event ::
  "string \<Rightarrow> int \<Rightarrow> int \<Rightarrow> heap \<Rightarrow> ref list \<Rightarrow> Event list \<Rightarrow> heap \<times> Event list" where
  "count_event type' timestamp' now h slots' overflow' =
     (let lastBucket = slots' ! (length slots' - 1)
      in if js_gt (Number now) (ToNumber (bounds_end (bounds (h ! lastBucket))))
         then (h, overflow' @ [\<lparr>type = type', timestamp = timestamp'\<rparr>])
         else (let slot = slots' ! (length slots' - 1)
               in (h[slot := increment type' (h ! slot)], overflow')))"

text \<open>
  The body of the transaction of \<^verbatim>\<open>EventAdded\<close> (lines 53 to 82). \<open>timespan\<close> is the
  configured width in minutes, \<open>event\<close> the created stream document.
\<close>

definition EventAdded_txn ::
  "int \<Rightarrow> StreamEvent \<Rightarrow> Aggregate option \<Rightarrow> transaction \<Rightarrow> (error + unit) \<times> transaction" where
  "EventAdded_txn timespan event aggregate tx =
     (let timespanSecs = timespan * 60;
          type' = event_type event
      in case aggregate of
           None \<Rightarrow> (Inl DocumentDoesNotExist, tx)
         | Some doc \<Rightarrow>
             (let (h0, slots0) = load (slots doc);
                  overflow0 = overflow doc;
                  now = createTime event;
                  (h1, slots1) = first_slot timespanSecs now h0 slots0;
                  (h2, overflow1) = count_event type' (event_timestamp event) now h1 slots1 overflow0
              in (Inr (), update \<lparr>slots = snapshot h2 slots1, overflow = overflow1\<rparr> tx)))"

subsection \<open>A slot has passed\<close>

text \<open>Lines 104 to 120: the bounds of the next slot.\<close>

definition next_bounds :: "int \<Rightarrow> int \<Rightarrow> heap \<Rightarrow> ref list \<Rightarrow> jsnum \<times> jsnum" where
  "next_bounds timespanSecs now h slots' =
     (if length slots' = 0
      then (let start = Number now
            in (start, js_add start (Number (timespanSecs - 1))))
      else (let lastSlot = slots' ! (length slots' - 1);
                start = js_add (ToNumber (bounds_end (bounds (h ! lastSlot)))) (Number 1)
            in (start, js_sub (js_add start (Number timespanSecs)) (Number 1))))"

text \<open>Lines 125 to 128: \<^verbatim>\<open>slots.splice(0, diff)\<close> removes the first \<open>diff\<close> references
  of the array.\<close>

definition evict :: "nat \<Rightarrow> ref list \<Rightarrow> ref list" where
  "evict size' slots' =
     (if length slots' > size'
      then (let diff = length slots' - size' in drop diff slots')
      else slots')"

text \<open>Lines 130 to 132: every buffered event is counted in the object \<^verbatim>\<open>nextSlot\<close>.\<close>

definition drain_overflow :: "ref \<Rightarrow> Event list \<Rightarrow> heap \<Rightarrow> heap" where
  "drain_overflow nextSlot overflow' h =
     foldl (\<lambda>h event. h[nextSlot := increment (type event) (h ! nextSlot)]) h overflow'"

text \<open>
  The body of the transaction of \<^verbatim>\<open>SlotPassed\<close> (lines 96 to 138). \<open>size'\<close> is the
  configured number of buckets, \<open>now\<close> the time of the scheduled invocation in epoch
  seconds (\<^verbatim>\<open>Math.floor(Date.parse(context.timestamp) / 1000)\<close>).
\<close>

definition SlotPassed_txn ::
  "int \<Rightarrow> nat \<Rightarrow> int \<Rightarrow> Aggregate option \<Rightarrow> transaction \<Rightarrow> (error + unit) \<times> transaction" where
  "SlotPassed_txn timespan size' now aggregate tx =
     (let timespanSecs = timespan * 60
      in case aggregate of
           None \<Rightarrow> (Inl DocumentDoesNotExist, tx)
         | Some doc \<Rightarrow>
             (let (h0, slots0) = load (slots doc);
                  overflow0 = overflow doc;
                  (start, end') = next_bounds timespanSecs now h0 slots0;
                  (h1, nextSlot) = alloc h0 (CreateTemporalSlot start end');
                  slots1 = slots0 @ [nextSlot];
                  slots2 = evict size' slots1;
                  h2 = drain_overflow nextSlot overflow0 h1
              in (Inr (), update \<lparr>slots = snapshot h2 slots2, overflow = []\<rparr> tx)))"

text \<open>The two handlers: each runs its body as one transaction on the stored document.\<close>

definition EventAdded ::
  "int \<Rightarrow> nat \<Rightarrow> StreamEvent \<Rightarrow> Aggregate option \<Rightarrow> (error + unit) \<times> Aggregate option" where
  "EventAdded timespan size' event = runTransaction (EventAdded_txn timespan event)"

definition SlotPassed ::
  "int \<Rightarrow> nat \<Rightarrow> int \<Rightarrow> Aggregate option \<Rightarrow> (error + unit) \<times> Aggregate option" where
  "SlotPassed timespan size' now = runTransaction (SlotPassed_txn timespan size' now)"

section \<open>The percentage view (\<^verbatim>\<open>view.ts\<close>, lines 4 to 26)\<close>

text \<open>
  The quotient of two integers in JavaScript: \<^verbatim>\<open>0 / 0\<close> is \<^verbatim>\<open>NaN\<close>, any other
  division by zero is an infinity, and no division throws. The sign of a zero is not
  modelled.
\<close>

datatype jsquotient = Ratio rat | QNaN | PosInfinity | NegInfinity

definition js_div :: "int \<Rightarrow> int \<Rightarrow> jsquotient" where
  "js_div a b =
     (if b = 0 then (if a = 0 then QNaN else if a > 0 then PosInfinity else NegInfinity)
      else Ratio (of_int a / of_int b))"

text \<open>The object the mapper returns; \<open>updated\<close> is \<^verbatim>\<open>Date.now()\<close> in milliseconds.\<close>

record PercentageUpdate =
  WALK_share :: jsquotient
  WHEELS_share :: jsquotient
  TRANSIT_share :: jsquotient
  CAR_share :: jsquotient
  updated :: int

text \<open>The loop of lines 9 to 14: the four running totals.\<close>

definition add_slot :: "int \<times> int \<times> int \<times> int \<Rightarrow> TemporalSlot \<Rightarrow> int \<times> int \<times> int \<times> int" where
  "add_slot totals slot =
     (case totals of (t0, t1, t2, t3) \<Rightarrow>
        (t0 + WALK slot, t1 + WHEELS slot, t2 + TRANSIT slot, t3 + CAR slot))"

definition totals_of :: "TemporalSlot list \<Rightarrow> int \<times> int \<times> int \<times> int" where
  "totals_of slots' = foldl add_slot (0, 0, 0, 0) slots'"

text \<open>\<open>Date_now\<close> is the reading of the clock that the mapper takes.\<close>

definition ConvertTemporalAggregationToPercentages :: "int \<Rightarrow> Aggregate \<Rightarrow> PercentageUpdate" where
  "ConvertTemporalAggregationToPercentages Date_now aggregate =
     (case totals_of (slots aggregate) of (t0, t1, t2, t3) \<Rightarrow>
        (let sum = t0 + t1 + t2 + t3
         in \<lparr>WALK_share = js_div t0 sum,
             WHEELS_share = js_div t1 sum,
             TRANSIT_share = js_div t2 sum,
             CAR_share = js_div t3 sum,
             updated = Date_now\<rparr>))"

section \<open>Notions used in the statements\<close>

text \<open>The object \<^verbatim>\<open>nextSlot\<close> after the loop of lines 130 to 132 has run over the
  overflow buffer.\<close>

definition drain :: "Event list \<Rightarrow> TemporalSlot \<Rightarrow> TemporalSlot" where
  "drain overflow' slot = foldl (\<lambda>s event. increment (type event) s) slot overflow'"

text \<open>The slot that line 122 creates, in terms of the stored slots.\<close>

definition tick_slot :: "int \<Rightarrow> int \<Rightarrow> TemporalSlot list \<Rightarrow> TemporalSlot" where
  "tick_slot timespan now stored =
     (if stored = [] then CreateTemporalSlot (Number now) (Number (now + (timespan * 60 - 1)))
      else (let start = js_add (ToNumber (bounds_end (bounds (last stored)))) (Number 1)
            in CreateTemporalSlot start (js_sub (js_add start (Number (timespan * 60))) (Number 1))))"

text \<open>The number of buffered events of one type.\<close>

definition buffered :: "string \<Rightarrow> Event list \<Rightarrow> int" where
  "buffered key overflow' = int (length (filter (\<lambda>event. type event = key) overflow'))"

text \<open>\<^verbatim>\<open>a.bounds.end + 1 == b.bounds.start\<close>, an equality of JavaScript numbers: it is
  false when a side is \<^verbatim>\<open>NaN\<close>.\<close>

fun js_eq :: "jsnum \<Rightarrow> jsnum \<Rightarrow> bool" where
  "js_eq (Number a) (Number b) = (a = b)"
| "js_eq _ _ = False"

definition adjacent :: "TemporalSlot \<Rightarrow> TemporalSlot \<Rightarrow> bool" where
  "adjacent a b =
     js_eq (js_add (ToNumber (bounds_end (bounds a))) (Number 1)) (ToNumber (bounds_start (bounds b)))"

fun contiguous :: "TemporalSlot list \<Rightarrow> bool" where
  "contiguous (a # b # rest) = (adjacent a b \<and> contiguous (b # rest))"
| "contiguous [a] = True"
| "contiguous [] = True"

text \<open>The end of the bucket is a number: its bounds have not been overwritten.\<close>

definition numeric_end :: "TemporalSlot \<Rightarrow> bool" where
  "numeric_end slot = (case bounds_end (bounds slot) of Some (Number e) \<Rightarrow> True | _ \<Rightarrow> False)"

text \<open>The invariant of the window: the slots are contiguous and the next slot can be
  attached to the last one.\<close>

definition tiling :: "TemporalSlot list \<Rightarrow> bool" where
  "tiling stored = (contiguous stored \<and> (stored = [] \<or> numeric_end (last stored)))"

text \<open>The scheduler: one invocation of \<^verbatim>\<open>SlotPassed\<close> for each tick, at the given times,
  with no event in between.\<close>

fun ticks :: "int \<Rightarrow> nat \<Rightarrow> int list \<Rightarrow> Aggregate option \<Rightarrow> Aggregate option" where
  "ticks timespan size' [] stored = stored"
| "ticks timespan size' (now # nows) stored =
     ticks timespan size' nows (snd (SlotPassed timespan size' now stored))"

text \<open>A slot all of whose four counters are zero.\<close>

definition all_zero :: "TemporalSlot \<Rightarrow> bool" where
  "all_zero slot = (WALK slot = 0 \<and> WHEELS slot = 0 \<and> TRANSIT slot = 0 \<and> CAR slot = 0)"

section \<open>The handlers as functions on the stored document\<close>

lemma snapshot_upt: "snapshot h [0..<length h] = h"
  by (simp add: snapshot_def map_nth)

lemma snapshot_drop_upt: "snapshot h (drop k [0..<length h]) = drop k h"
proof -
  have "snapshot h (drop k [0..<length h]) = drop k (snapshot h [0..<length h])"
    unfolding snapshot_def by (rule drop_map [symmetric])
  then show ?thesis by (simp only: snapshot_upt)
qed

lemma drain_overflow_object:
  "n < length h \<Longrightarrow> drain_overflow n overflow' h = h[n := drain overflow' (h ! n)]"
  unfolding drain_overflow_def drain_def
  by (induction overflow' arbitrary: h) simp_all

lemma evict_drop: "evict size' refs = drop (length refs - size') refs"
  by (simp add: evict_def Let_def)

lemma next_bounds_load:
  "(case next_bounds (timespan * 60) now stored [0..<length stored] of
      (start, end') \<Rightarrow> CreateTemporalSlot start end') = tick_slot timespan now stored"
  by (cases "stored = []") (simp_all add: next_bounds_def tick_slot_def Let_def last_conv_nth)

lemma SlotPassed_txn_Some:
  "SlotPassed_txn timespan size' now (Some doc) tx =
     (Inr (), update \<lparr>slots = drop (Suc (length (slots doc)) - size')
                        (slots doc @ [drain (overflow doc) (tick_slot timespan now (slots doc))]),
                      overflow = []\<rparr> tx)"
proof -
  let ?S = "slots doc"
  let ?x = "tick_slot timespan now ?S"
  obtain s e where se: "next_bounds (timespan * 60) now ?S [0..<length ?S] = (s, e)"
    by (cases "next_bounds (timespan * 60) now ?S [0..<length ?S]")
  have x: "CreateTemporalSlot s e = ?x"
    using next_bounds_load [of timespan now ?S] se by simp
  have heap: "drain_overflow (length ?S) (overflow doc) (?S @ [?x]) = ?S @ [drain (overflow doc) ?x]"
    by (simp add: drain_overflow_object)
  have refs: "[0..<length ?S] @ [length ?S] = [0..<length (?S @ [drain (overflow doc) ?x])]"
    by simp
  have snap: "snapshot (?S @ [drain (overflow doc) ?x])
                (evict size' ([0..<length ?S] @ [length ?S]))
              = drop (Suc (length ?S) - size') (?S @ [drain (overflow doc) ?x])"
    unfolding evict_drop refs snapshot_drop_upt by simp
  show ?thesis
    unfolding SlotPassed_txn_def Let_def load_def alloc_def option.case prod.case se x heap snap
    by (rule refl)
qed

lemma SlotPassed_Some:
  "SlotPassed timespan size' now (Some doc) =
     (Inr (), Some \<lparr>slots = drop (Suc (length (slots doc)) - size')
                        (slots doc @ [drain (overflow doc) (tick_slot timespan now (slots doc))]),
                      overflow = []\<rparr>)"
  by (simp add: SlotPassed_def runTransaction_def SlotPassed_txn_Some update_def)

lemma first_slot_load:
  "first_slot timespanSecs now stored [0..<length stored] =
     (if stored = [] then ([CreateTemporalSlot (Number now) (Number (now + timespanSecs - 1))], [0])
      else (stored, [0..<length stored]))"
  by (simp add: first_slot_def alloc_def)

lemma count_event_load:
  assumes "stored \<noteq> []"
  shows "count_event type' timestamp' now stored [0..<length stored] overflow' =
     (if js_gt (Number now) (ToNumber (bounds_end (bounds (last stored))))
      then (stored, overflow' @ [\<lparr>type = type', timestamp = timestamp'\<rparr>])
      else (butlast stored @ [increment type' (last stored)], overflow'))"
proof -
  from assms have idx: "[0..<length stored] ! (length stored - 1) = length stored - 1"
    by simp
  from assms have l: "stored ! (length stored - 1) = last stored"
    by (simp add: last_conv_nth)
  from assms have u: "stored[length stored - 1 := v] = butlast stored @ [v]" for v
    by (induction stored rule: rev_induct) simp_all
  show ?thesis
    unfolding count_event_def Let_def length_upt diff_zero idx l u by (rule refl)
qed

lemma EventAdded_nonempty:
  assumes "slots doc \<noteq> []"
  shows "EventAdded timespan size' event (Some doc) =
     (Inr (), Some
       (if js_gt (Number (createTime event)) (ToNumber (bounds_end (bounds (last (slots doc)))))
        then \<lparr>slots = slots doc,
              overflow = overflow doc @ [\<lparr>type = event_type event, timestamp = event_timestamp event\<rparr>]\<rparr>
        else \<lparr>slots = butlast (slots doc) @ [increment (event_type event) (last (slots doc))],
              overflow = overflow doc\<rparr>))"
proof -
  let ?S = "slots doc"
  have len: "length (butlast ?S @ [v]) = length ?S" for v
    using assms by simp
  have s1: "snapshot ?S [0..<length ?S] = ?S" by (rule snapshot_upt)
  have s2: "snapshot (butlast ?S @ [v]) [0..<length ?S] = butlast ?S @ [v]" for v
    using snapshot_upt [of "butlast ?S @ [v]"] unfolding len .
  show ?thesis
    using assms s1 s2
    by (simp add: EventAdded_def runTransaction_def update_def EventAdded_txn_def Let_def load_def
        first_slot_load count_event_load)
qed

lemma EventAdded_empty:
  assumes "slots doc = []"
  shows "EventAdded timespan size' event (Some doc) =
     (Inr (), Some
       (if createTime event > createTime event + timespan * 60 - 1
        then \<lparr>slots = [CreateTemporalSlot (Number (createTime event))
                         (Number (createTime event + timespan * 60 - 1))],
              overflow = overflow doc @ [\<lparr>type = event_type event, timestamp = event_timestamp event\<rparr>]\<rparr>
        else \<lparr>slots = [increment (event_type event)
                         (CreateTemporalSlot (Number (createTime event))
                            (Number (createTime event + timespan * 60 - 1)))],
              overflow = overflow doc\<rparr>))"
proof -
  let ?c = "CreateTemporalSlot (Number (createTime event)) (Number (createTime event + timespan * 60 - 1))"
  have ce: "count_event type' timestamp' now [?c] [0..<length [?c]] overflow' =
     (if js_gt (Number now) (ToNumber (bounds_end (bounds (last [?c]))))
      then ([?c], overflow' @ [\<lparr>type = type', timestamp = timestamp'\<rparr>])
      else (butlast [?c] @ [increment type' (last [?c])], overflow'))"
    for type' timestamp' now overflow'
    by (rule count_event_load) simp
  have b: "bounds_end (bounds ?c) = Some (Number (createTime event + timespan * 60 - 1))"
    by (simp add: CreateTemporalSlot_def)
  have f: "first_slot (timespan * 60) (createTime event) [] [] = ([?c], [0])"
    by (simp add: first_slot_def alloc_def)
  show ?thesis
    using assms ce b
    by (simp add: EventAdded_def runTransaction_def update_def EventAdded_txn_def Let_def load_def
        f snapshot_def)
qed

lemma increment_category:
  "key \<in> set categories \<Longrightarrow>
   increment key slot =
     slot\<lparr>WALK := WALK slot + (if key = ''WALK'' then 1 else 0),
          WHEELS := WHEELS slot + (if key = ''WHEELS'' then 1 else 0),
          TRANSIT := TRANSIT slot + (if key = ''TRANSIT'' then 1 else 0),
          CAR := CAR slot + (if key = ''CAR'' then 1 else 0)\<rparr>"
  by (auto simp add: categories_def increment_def)

lemma runTransaction_failure:
  "fst (runTransaction updateFunction stored) = Inl e \<Longrightarrow>
   snd (runTransaction updateFunction stored) = stored"
  by (auto simp add: runTransaction_def split: prod.splits sum.splits)

lemma drain_Nil: "drain [] slot = slot"
  by (simp add: drain_def)

lemma drain_Cons: "drain (event # overflow') slot = drain overflow' (increment (type event) slot)"
  by (simp add: drain_def)

lemma drain_counters:
  "WALK (drain overflow' slot) = WALK slot + buffered ''WALK'' overflow' \<and>
   WHEELS (drain overflow' slot) = WHEELS slot + buffered ''WHEELS'' overflow' \<and>
   TRANSIT (drain overflow' slot) = TRANSIT slot + buffered ''TRANSIT'' overflow' \<and>
   CAR (drain overflow' slot) = CAR slot + buffered ''CAR'' overflow'"
proof (induction overflow' arbitrary: slot)
  case Nil
  show ?case by (simp add: drain_Nil buffered_def)
next
  case (Cons event overflow')
  have step: "WALK (increment (type event) slot) = WALK slot + (if type event = ''WALK'' then 1 else 0)"
    "WHEELS (increment (type event) slot) = WHEELS slot + (if type event = ''WHEELS'' then 1 else 0)"
    "TRANSIT (increment (type event) slot) = TRANSIT slot + (if type event = ''TRANSIT'' then 1 else 0)"
    "CAR (increment (type event) slot) = CAR slot + (if type event = ''CAR'' then 1 else 0)"
    by (simp_all add: increment_def)
  show ?case
    using Cons.IH [of "increment (type event) slot"] step
    by (simp add: drain_Cons buffered_def)
qed

lemma drain_bounds:
  "\<forall>event \<in> set overflow'. type event \<noteq> ''bounds'' \<Longrightarrow> bounds (drain overflow' slot) = bounds slot"
proof (induction overflow' arbitrary: slot)
  case Nil
  show ?case by (simp add: drain_Nil)
next
  case (Cons event overflow')
  then have "type event \<noteq> ''bounds''" by simp
  then have "bounds (increment (type event) slot) = bounds slot"
    by (simp add: increment_def)
  with Cons show ?case by (simp add: drain_Cons)
qed

lemma tick_slot_counters:
  "WALK (tick_slot timespan now stored) = 0 \<and> WHEELS (tick_slot timespan now stored) = 0 \<and>
   TRANSIT (tick_slot timespan now stored) = 0 \<and> CAR (tick_slot timespan now stored) = 0"
  by (simp add: tick_slot_def CreateTemporalSlot_def Let_def)

lemma tick_slot_bounds:
  "stored \<noteq> [] \<Longrightarrow> bounds_end (bounds (last stored)) = Some (Number e) \<Longrightarrow>
   bounds (tick_slot timespan now stored) = Bounds (Number (e + 1)) (Number (e + 1 + timespan * 60 - 1))"
  by (simp add: tick_slot_def CreateTemporalSlot_def Let_def)

lemma tick_slot_bounds_Nil:
  "bounds (tick_slot timespan now []) = Bounds (Number now) (Number (now + (timespan * 60 - 1)))"
  by (simp add: tick_slot_def CreateTemporalSlot_def)

text \<open>The object \<^verbatim>\<open>nextSlot\<close> of an invocation, after the loop over the overflow buffer,
  is the drained new slot of the statements below.\<close>

lemma nextSlot_object:
  "(case load (slots doc) of (h0, slots0) \<Rightarrow>
      case next_bounds (timespan * 60) now h0 slots0 of (start, end') \<Rightarrow>
        case alloc h0 (CreateTemporalSlot start end') of (h1, nextSlot) \<Rightarrow>
          drain_overflow nextSlot (overflow doc) h1 ! nextSlot)
   = drain (overflow doc) (tick_slot timespan now (slots doc))"
proof -
  obtain s e where se: "next_bounds (timespan * 60) now (slots doc) [0..<length (slots doc)] = (s, e)"
    by (cases "next_bounds (timespan * 60) now (slots doc) [0..<length (slots doc)]")
  have x: "CreateTemporalSlot s e = tick_slot timespan now (slots doc)"
    using next_bounds_load [of timespan now "slots doc"] se by simp
  show ?thesis
    unfolding load_def alloc_def prod.case se x
    by (simp add: drain_overflow_object)
qed

lemma length_drop_le: "length (drop (length xs - k) xs) \<le> k"
  by simp

lemma length_drop_eq: "k < length xs \<Longrightarrow> length (drop (length xs - k) xs) = k"
  by simp

section \<open>The window invariant\<close>

lemma contiguous_append:
  "contiguous (stored @ [slot]) = (contiguous stored \<and> (stored = [] \<or> adjacent (last stored) slot))"
  by (induction stored rule: contiguous.induct) simp_all

lemma contiguous_tl: "contiguous (a # rest) \<Longrightarrow> contiguous rest"
  by (cases rest) simp_all

lemma contiguous_drop: "contiguous stored \<Longrightarrow> contiguous (drop k stored)"
proof (induction k arbitrary: stored)
  case 0
  then show ?case by simp
next
  case (Suc k)
  then show ?case by (cases stored) (simp_all add: contiguous_tl)
qed

lemma contiguous_nth:
  "contiguous stored \<Longrightarrow> Suc i < length stored \<Longrightarrow> adjacent (stored ! i) (stored ! Suc i)"
proof (induction stored arbitrary: i rule: contiguous.induct)
  case (1 a b rest)
  then show ?case by (cases i) simp_all
qed simp_all

lemma tiling_drop:
  assumes "tiling stored"
  shows "tiling (drop k stored)"
proof (cases "k < length stored")
  case True
  then have "last (drop k stored) = last stored" by (rule last_drop)
  with assms True show ?thesis
    by (auto simp add: tiling_def contiguous_drop)
next
  case False
  then show ?thesis by (simp add: tiling_def)
qed

lemma tiling_tick:
  assumes "tiling stored" and "\<forall>event \<in> set overflow'. type event \<noteq> ''bounds''"
  shows "tiling (stored @ [drain overflow' (tick_slot timespan now stored)])"
proof (cases "stored = []")
  case True
  then show ?thesis
    using assms(2)
    by (simp add: tiling_def numeric_end_def drain_bounds tick_slot_bounds_Nil)
next
  case False
  with assms(1) obtain e where e: "bounds_end (bounds (last stored)) = Some (Number e)"
    by (auto simp add: tiling_def numeric_end_def split: option.splits jsnum.splits)
  have b: "bounds (drain overflow' (tick_slot timespan now stored)) =
             Bounds (Number (e + 1)) (Number (e + 1 + timespan * 60 - 1))"
    using assms(2) False e by (simp add: drain_bounds tick_slot_bounds)
  show ?thesis
    using assms(1) False e b
    by (simp add: tiling_def contiguous_append adjacent_def numeric_end_def)
qed

lemma tiling_SlotPassed:
  assumes "tiling (slots doc)" and "\<forall>event \<in> set (overflow doc). type event \<noteq> ''bounds''"
  shows "\<exists>doc'. snd (SlotPassed timespan size' now (Some doc)) = Some doc' \<and>
           tiling (slots doc') \<and> overflow doc' = []"
proof -
  let ?doc' = "\<lparr>slots = drop (Suc (length (slots doc)) - size')
                  (slots doc @ [drain (overflow doc) (tick_slot timespan now (slots doc))]),
                overflow = []\<rparr>"
  have "snd (SlotPassed timespan size' now (Some doc)) = Some ?doc'"
    by (simp only: SlotPassed_Some snd_conv)
  moreover have "tiling (slots ?doc')"
    using tiling_drop [OF tiling_tick [OF assms]] by (simp only: Aggregate.simps)
  moreover have "overflow ?doc' = []" by simp
  ultimately show ?thesis by blast
qed

lemma tiling_ticks:
  assumes "tiling (slots doc)" and "\<forall>event \<in> set (overflow doc). type event \<noteq> ''bounds''"
  shows "\<exists>doc'. ticks timespan size' nows (Some doc) = Some doc' \<and> tiling (slots doc')"
  using assms
proof (induction nows arbitrary: doc)
  case Nil
  then show ?case by simp
next
  case (Cons now nows)
  from tiling_SlotPassed [OF Cons.prems]
  obtain doc1 where d: "snd (SlotPassed timespan size' now (Some doc)) = Some doc1"
    "tiling (slots doc1)" "overflow doc1 = []"
    by blast
  from d(3) have "\<forall>event \<in> set (overflow doc1). type event \<noteq> ''bounds''" by simp
  from Cons.IH [OF d(2) this] d(1) show ?case by simp
qed

section \<open>The totals of the view\<close>

lemma foldl_add_slot:
  "foldl add_slot (t0, t1, t2, t3) stored =
     (t0 + sum_list (map WALK stored), t1 + sum_list (map WHEELS stored),
      t2 + sum_list (map TRANSIT stored), t3 + sum_list (map CAR stored))"
  by (induction stored arbitrary: t0 t1 t2 t3) (simp_all add: add_slot_def)

lemma totals_of_sums:
  "totals_of stored =
     (sum_list (map WALK stored), sum_list (map WHEELS stored),
      sum_list (map TRANSIT stored), sum_list (map CAR stored))"
  by (simp add: totals_of_def foldl_add_slot)

lemma sum_list_zero: "\<forall>x \<in> set xs. f x = (0::int) \<Longrightarrow> sum_list (map f xs) = 0"
  by (induction xs) simp_all

section \<open>Events after the end of the window\<close>

text \<open>
  Claim C3. An event is added to a document that has slots, and the creation time of the
  event is after the end of the last slot. Then the handler succeeds and the stored
  document changes in exactly one place: the overflow buffer has one more entry, at its
  end, with the type of the event and the \<^verbatim>\<open>timestamp\<close> field of the event (not the
  creation time that was compared). The slots, and so every counter, are the same.
\<close>

theorem EventAdded_out_of_window:
  assumes "slots doc \<noteq> []"
    and "bounds_end (bounds (last (slots doc))) = Some (Number e)"
    and "createTime event > e"
  shows "EventAdded timespan size' event (Some doc) =
           (Inr (), Some (doc\<lparr>overflow := overflow doc @
              [\<lparr>type = event_type event, timestamp = event_timestamp event\<rparr>]\<rparr>))"
  using assms by (simp add: EventAdded_nonempty)

theorem EventAdded_out_of_window_witness:
  "EventAdded 60 3 \<lparr>event_type = ''CAR'', event_timestamp = 7, createTime = 3700\<rparr>
     (Some \<lparr>slots = [CreateTemporalSlot (Number 0) (Number 3599)], overflow = []\<rparr>) =
   (Inr (), Some \<lparr>slots = [CreateTemporalSlot (Number 0) (Number 3599)],
                  overflow = [\<lparr>type = ''CAR'', timestamp = 7\<rparr>]\<rparr>)"
  using EventAdded_out_of_window [of "\<lparr>slots = [CreateTemporalSlot (Number 0) (Number 3599)], overflow = []\<rparr>"
      3599 "\<lparr>event_type = ''CAR'', event_timestamp = 7, createTime = 3700\<rparr>" 60 3]
  by (simp add: CreateTemporalSlot_def)

section \<open>Events inside the window\<close>

text \<open>
  Claim C2, amended. An event whose type is one of the four declared counters is added to
  a document that has slots, and the creation time of the event is not after the end of
  the last slot. Then the handler succeeds and the stored document changes in exactly one
  place: in the last slot the counter of the event's type is one higher. The other three
  counters, the bounds and the other properties of the last slot, every earlier slot and
  the overflow buffer are the same.
\<close>

theorem EventAdded_in_window:
  assumes "slots doc \<noteq> []"
    and "bounds_end (bounds (last (slots doc))) = Some (Number e)"
    and "createTime event \<le> e"
    and "event_type event \<in> set categories"
  shows "EventAdded timespan size' event (Some doc) =
           (Inr (), Some (doc\<lparr>slots := butlast (slots doc) @
              [(last (slots doc))
                 \<lparr>WALK := WALK (last (slots doc)) + (if event_type event = ''WALK'' then 1 else 0),
                  WHEELS := WHEELS (last (slots doc)) + (if event_type event = ''WHEELS'' then 1 else 0),
                  TRANSIT := TRANSIT (last (slots doc)) + (if event_type event = ''TRANSIT'' then 1 else 0),
                  CAR := CAR (last (slots doc)) + (if event_type event = ''CAR'' then 1 else 0)\<rparr>]\<rparr>))"
proof -
  have "\<not> js_gt (Number (createTime event)) (ToNumber (bounds_end (bounds (last (slots doc)))))"
    using assms(2,3) by simp
  then show ?thesis
    using assms(1) increment_category [OF assms(4), of "last (slots doc)"]
    by (simp add: EventAdded_nonempty)
qed

text \<open>The theorem at an event of type \<^verbatim>\<open>CAR\<close> created inside the second of two slots.\<close>

theorem EventAdded_in_window_witness:
  "EventAdded 60 3 \<lparr>event_type = ''CAR'', event_timestamp = 7, createTime = 3700\<rparr>
     (Some \<lparr>slots = [CreateTemporalSlot (Number 0) (Number 3599),
                     CreateTemporalSlot (Number 3600) (Number 7199)], overflow = []\<rparr>) =
   (Inr (), Some \<lparr>slots = [CreateTemporalSlot (Number 0) (Number 3599),
                     (CreateTemporalSlot (Number 3600) (Number 7199))\<lparr>CAR := 1\<rparr>], overflow = []\<rparr>)"
  using EventAdded_in_window [of "\<lparr>slots = [CreateTemporalSlot (Number 0) (Number 3599),
                     CreateTemporalSlot (Number 3600) (Number 7199)], overflow = []\<rparr>"
      7199 "\<lparr>event_type = ''CAR'', event_timestamp = 7, createTime = 3700\<rparr>" 60 3]
  by (simp add: CreateTemporalSlot_def categories_def)

text \<open>
  Claim C2 as stated, for every event, fails at a type that is not a declared counter:
  \<^verbatim>\<open>slot['FOO']++\<close> reads \<^verbatim>\<open>undefined\<close> and stores \<^verbatim>\<open>NaN\<close>, so no counter is one
  higher.
\<close>

theorem EventAdded_unknown_type_counterexample:
  "EventAdded 60 3 \<lparr>event_type = ''FOO'', event_timestamp = 7, createTime = 100\<rparr>
     (Some \<lparr>slots = [CreateTemporalSlot (Number 0) (Number 3599)], overflow = []\<rparr>) =
   (Inr (), Some \<lparr>slots = [(CreateTemporalSlot (Number 0) (Number 3599))\<lparr>props := [(''FOO'', NaN)]\<rparr>],
                  overflow = []\<rparr>)
   \<and> counter ''FOO'' (CreateTemporalSlot (Number 0) (Number 3599)) = None
   \<and> counter ''FOO'' ((CreateTemporalSlot (Number 0) (Number 3599))\<lparr>props := [(''FOO'', NaN)]\<rparr>) = Some NaN"
  by (simp add: EventAdded_nonempty CreateTemporalSlot_def increment_def counter_def)

section \<open>The first event creates the first slot\<close>

text \<open>
  Claim C6, amended. An event whose type is one of the four declared counters is added to
  a document without slots, and the configured width is at least one minute. Then the
  handler succeeds and stores exactly one slot, with the bounds
  \<open>[now, now + timespan * 60 - 1]\<close> where \<open>now\<close> is the creation time of the event, the
  counter of the event's type at 1 and the other counters at 0; the overflow buffer is the
  same.
\<close>

theorem EventAdded_first_slot:
  assumes "slots doc = []"
    and "1 \<le> timespan"
    and "event_type event \<in> set categories"
  shows "EventAdded timespan size' event (Some doc) =
           (Inr (), Some \<lparr>slots =
              [\<lparr>bounds = Bounds (Number (createTime event)) (Number (createTime event + timespan * 60 - 1)),
                WALK = (if event_type event = ''WALK'' then 1 else 0),
                WHEELS = (if event_type event = ''WHEELS'' then 1 else 0),
                TRANSIT = (if event_type event = ''TRANSIT'' then 1 else 0),
                CAR = (if event_type event = ''CAR'' then 1 else 0),
                props = []\<rparr>],
              overflow = overflow doc\<rparr>)"
proof -
  have "\<not> createTime event > createTime event + timespan * 60 - 1"
    using assms(2) by simp
  then show ?thesis
    using assms(1) increment_category [OF assms(3)]
    by (simp add: EventAdded_empty CreateTemporalSlot_def)
qed

text \<open>The scenario of the specification: a \<^verbatim>\<open>WALK\<close> event created at 1000, buckets of
  60 minutes.\<close>

theorem EventAdded_first_slot_witness:
  "EventAdded 60 3 \<lparr>event_type = ''WALK'', event_timestamp = 7, createTime = 1000\<rparr>
     (Some \<lparr>slots = [], overflow = []\<rparr>) =
   (Inr (), Some \<lparr>slots = [\<lparr>bounds = Bounds (Number 1000) (Number 4599),
                  WALK = 1, WHEELS = 0, TRANSIT = 0, CAR = 0, props = []\<rparr>], overflow = []\<rparr>)"
  using EventAdded_first_slot [of "\<lparr>slots = [], overflow = []\<rparr>" 60
      "\<lparr>event_type = ''WALK'', event_timestamp = 7, createTime = 1000\<rparr>" 3]
  by (simp add: categories_def)

text \<open>
  Claim C6 as stated fails at a type that is not a declared counter (the new slot counts
  nothing and has the property \<^verbatim>\<open>FOO\<close> at \<^verbatim>\<open>NaN\<close>) and at a width of zero minutes (the
  new slot ends before the event was created, so the event is buffered and not counted).
\<close>

theorem EventAdded_first_slot_counterexample:
  "EventAdded 60 3 \<lparr>event_type = ''FOO'', event_timestamp = 7, createTime = 1000\<rparr>
     (Some \<lparr>slots = [], overflow = []\<rparr>) =
   (Inr (), Some \<lparr>slots = [\<lparr>bounds = Bounds (Number 1000) (Number 4599),
                  WALK = 0, WHEELS = 0, TRANSIT = 0, CAR = 0, props = [(''FOO'', NaN)]\<rparr>], overflow = []\<rparr>)
   \<and>
   EventAdded 0 3 \<lparr>event_type = ''WALK'', event_timestamp = 7, createTime = 1000\<rparr>
     (Some \<lparr>slots = [], overflow = []\<rparr>) =
   (Inr (), Some \<lparr>slots = [\<lparr>bounds = Bounds (Number 1000) (Number 999),
                  WALK = 0, WHEELS = 0, TRANSIT = 0, CAR = 0, props = []\<rparr>],
                  overflow = [\<lparr>type = ''WALK'', timestamp = 7\<rparr>]\<rparr>)"
  by (simp add: EventAdded_empty CreateTemporalSlot_def increment_def)

section \<open>A missing document\<close>

text \<open>
  Claim C7. When the aggregation document does not exist, the body of either transaction
  throws before it has issued an update, and the handler fails with the error
  \<^verbatim>\<open>Document does not exist.\<close>. Whenever a handler fails, the stored document is what it
  was before the invocation.
\<close>

theorem missing_document_fails:
  "EventAdded_txn timespan event None tx = (Inl DocumentDoesNotExist, tx) \<and>
   SlotPassed_txn timespan size' now None tx = (Inl DocumentDoesNotExist, tx) \<and>
   EventAdded timespan size' event None = (Inl DocumentDoesNotExist, None) \<and>
   SlotPassed timespan size' now None = (Inl DocumentDoesNotExist, None) \<and>
   (\<forall>stored e. fst (EventAdded timespan size' event stored) = Inl e \<longrightarrow>
      snd (EventAdded timespan size' event stored) = stored) \<and>
   (\<forall>stored e. fst (SlotPassed timespan size' now stored) = Inl e \<longrightarrow>
      snd (SlotPassed timespan size' now stored) = stored)"
proof -
  have a: "EventAdded_txn timespan event None tx = (Inl DocumentDoesNotExist, tx)"
    by (simp add: EventAdded_txn_def)
  have b: "SlotPassed_txn timespan size' now None tx = (Inl DocumentDoesNotExist, tx)"
    by (simp add: SlotPassed_txn_def)
  have c: "EventAdded timespan size' event None = (Inl DocumentDoesNotExist, None)"
    by (simp add: EventAdded_def runTransaction_def EventAdded_txn_def)
  have d: "SlotPassed timespan size' now None = (Inl DocumentDoesNotExist, None)"
    by (simp add: SlotPassed_def runTransaction_def SlotPassed_txn_def)
  have e: "\<forall>stored e. fst (EventAdded timespan size' event stored) = Inl e \<longrightarrow>
      snd (EventAdded timespan size' event stored) = stored"
    unfolding EventAdded_def by (blast intro: runTransaction_failure)
  have f: "\<forall>stored e. fst (SlotPassed timespan size' now stored) = Inl e \<longrightarrow>
      snd (SlotPassed timespan size' now stored) = stored"
    unfolding SlotPassed_def by (blast intro: runTransaction_failure)
  from a b c d e f show ?thesis by blast
qed

text \<open>Both handlers on the missing document.\<close>

theorem missing_document_fails_witness:
  "fst (EventAdded 60 3 \<lparr>event_type = ''WALK'', event_timestamp = 7, createTime = 1000\<rparr> None)
     = Inl DocumentDoesNotExist \<and>
   snd (EventAdded 60 3 \<lparr>event_type = ''WALK'', event_timestamp = 7, createTime = 1000\<rparr> None) = None \<and>
   fst (SlotPassed 60 3 5000 None) = Inl DocumentDoesNotExist \<and>
   snd (SlotPassed 60 3 5000 None) = None"
  using missing_document_fails [of 60 "\<lparr>event_type = ''WALK'', event_timestamp = 7, createTime = 1000\<rparr>"
      "\<lparr>writes = []\<rparr>" 3 5000]
  by simp

section \<open>A tick advances the window\<close>

text \<open>
  Claim C1. A tick on a document whose last slot ends at the number \<open>e\<close> computes the
  bounds \<open>[e + 1, e + 1 + timespan * 60 - 1]\<close> for the slot it appends; the stored new slot
  has these bounds when it is retained and no buffered event has the type \<^verbatim>\<open>bounds\<close>.
  Consequently, from a document whose slots are contiguous, ticks at any times and with
  no event in between lead to a document where every adjacent pair of retained slots
  satisfies \<^verbatim>\<open>slots[i].end + 1 == slots[i+1].start\<close>.
\<close>

theorem ticks_tile_the_time:
  "(slots doc \<noteq> [] \<and> bounds_end (bounds (last (slots doc))) = Some (Number e) \<longrightarrow>
      next_bounds (timespan * 60) now (fst (load (slots doc))) (snd (load (slots doc))) =
        (Number (e + 1), Number (e + 1 + timespan * 60 - 1)) \<and>
      ((\<forall>event \<in> set (overflow doc). type event \<noteq> ''bounds'') \<and> 0 < size' \<longrightarrow>
        (\<exists>doc'. SlotPassed timespan size' now (Some doc) = (Inr (), Some doc') \<and>
           bounds (last (slots doc')) = Bounds (Number (e + 1)) (Number (e + 1 + timespan * 60 - 1))))) \<and>
   (tiling (slots doc) \<and> (\<forall>event \<in> set (overflow doc). type event \<noteq> ''bounds'') \<longrightarrow>
      (\<exists>doc'. ticks timespan size' nows (Some doc) = Some doc' \<and>
         (\<forall>i. Suc i < length (slots doc') \<longrightarrow> adjacent (slots doc' ! i) (slots doc' ! Suc i))))"
proof -
  have one: "next_bounds (timespan * 60) now (fst (load (slots doc))) (snd (load (slots doc))) =
        (Number (e + 1), Number (e + 1 + timespan * 60 - 1))"
    if "slots doc \<noteq> []" "bounds_end (bounds (last (slots doc))) = Some (Number e)"
    using that by (simp add: next_bounds_def load_def Let_def last_conv_nth)
  have two: "\<exists>doc'. SlotPassed timespan size' now (Some doc) = (Inr (), Some doc') \<and>
           bounds (last (slots doc')) = Bounds (Number (e + 1)) (Number (e + 1 + timespan * 60 - 1))"
    if "slots doc \<noteq> []" "bounds_end (bounds (last (slots doc))) = Some (Number e)"
      "\<forall>event \<in> set (overflow doc). type event \<noteq> ''bounds''" "0 < size'"
    using that by (simp add: SlotPassed_Some drain_bounds tick_slot_bounds)
  have three: "\<exists>doc'. ticks timespan size' nows (Some doc) = Some doc' \<and>
         (\<forall>i. Suc i < length (slots doc') \<longrightarrow> adjacent (slots doc' ! i) (slots doc' ! Suc i))"
    if "tiling (slots doc)" "\<forall>event \<in> set (overflow doc). type event \<noteq> ''bounds''"
  proof -
    from tiling_ticks [OF that] obtain doc' where
      d: "ticks timespan size' nows (Some doc) = Some doc'" "tiling (slots doc')"
      by blast
    from d(2) have "contiguous (slots doc')" by (simp add: tiling_def)
    then have "\<forall>i. Suc i < length (slots doc') \<longrightarrow> adjacent (slots doc' ! i) (slots doc' ! Suc i)"
      by (blast intro: contiguous_nth)
    with d(1) show ?thesis by blast
  qed
  from one two three show ?thesis by blast
qed

text \<open>The theorem at a document with the slot \<open>[0, 3599]\<close>, buckets of 60 minutes, three
  retained slots and four ticks.\<close>

theorem ticks_tile_the_time_witness:
  "next_bounds (60 * 60) 4000 (fst (load [CreateTemporalSlot (Number 0) (Number 3599)]))
       (snd (load [CreateTemporalSlot (Number 0) (Number 3599)])) = (Number 3600, Number 7199) \<and>
   (\<exists>doc'. SlotPassed 60 3 4000 (Some \<lparr>slots = [CreateTemporalSlot (Number 0) (Number 3599)], overflow = []\<rparr>)
        = (Inr (), Some doc') \<and>
      bounds (last (slots doc')) = Bounds (Number 3600) (Number 7199)) \<and>
   (\<exists>doc'. ticks 60 3 [4000, 8000, 11000, 15000]
        (Some \<lparr>slots = [CreateTemporalSlot (Number 0) (Number 3599)], overflow = []\<rparr>) = Some doc' \<and>
      (\<forall>i. Suc i < length (slots doc') \<longrightarrow> adjacent (slots doc' ! i) (slots doc' ! Suc i)))"
  using ticks_tile_the_time [of "\<lparr>slots = [CreateTemporalSlot (Number 0) (Number 3599)], overflow = []\<rparr>"
      3599 60 4000 3 "[4000, 8000, 11000, 15000]"]
  by (simp add: tiling_def numeric_end_def CreateTemporalSlot_def)

section \<open>Eviction\<close>

text \<open>
  Claim C4. Every tick on an existing document succeeds and stores at most \<open>size'\<close>
  slots. The array before the eviction is the stored slots followed by the new slot; when
  it is not longer than \<open>size'\<close> it is stored whole, and when it is longer, its first
  \<open>length - size'\<close> entries are removed, however many they are, and exactly \<open>size'\<close>
  slots are stored.
\<close>

theorem SlotPassed_evicts_oldest:
  "\<exists>doc'. SlotPassed timespan size' now (Some doc) = (Inr (), Some doc') \<and>
      length (slots doc') \<le> size' \<and>
      (Suc (length (slots doc)) \<le> size' \<longrightarrow>
         slots doc' = slots doc @ [drain (overflow doc) (tick_slot timespan now (slots doc))]) \<and>
      (size' < Suc (length (slots doc)) \<longrightarrow>
         slots doc' = drop (Suc (length (slots doc)) - size')
                        (slots doc @ [drain (overflow doc) (tick_slot timespan now (slots doc))]) \<and>
         length (slots doc') = size')"
proof -
  let ?pre = "slots doc @ [drain (overflow doc) (tick_slot timespan now (slots doc))]"
  let ?doc' = "\<lparr>slots = drop (Suc (length (slots doc)) - size') ?pre, overflow = []\<rparr>"
  have len: "length ?pre = Suc (length (slots doc))" by simp
  have run: "SlotPassed timespan size' now (Some doc) = (Inr (), Some ?doc')"
    by (rule SlotPassed_Some)
  have le: "length (slots ?doc') \<le> size'"
    using length_drop_le [of ?pre size'] unfolding len by simp
  have keep: "Suc (length (slots doc)) \<le> size' \<longrightarrow> slots ?doc' = ?pre"
    by simp
  have cut: "size' < Suc (length (slots doc)) \<longrightarrow> length (slots ?doc') = size'"
    using length_drop_eq [of size' ?pre] unfolding len by simp
  have same: "slots ?doc' = drop (Suc (length (slots doc)) - size') ?pre"
    by simp
  from run le keep cut same show ?thesis by blast
qed

text \<open>Two stored slots and a tick: with one retained slot two slots are evicted at once,
  with three retained slots none is.\<close>

theorem SlotPassed_evicts_oldest_witness:
  "(\<exists>doc'. SlotPassed 60 1 5000 (Some \<lparr>slots = [CreateTemporalSlot (Number 0) (Number 3599),
       CreateTemporalSlot (Number 3600) (Number 7199)], overflow = []\<rparr>) = (Inr (), Some doc') \<and>
      slots doc' = [CreateTemporalSlot (Number 7200) (Number 10799)] \<and> length (slots doc') = 1) \<and>
   (\<exists>doc'. SlotPassed 60 3 5000 (Some \<lparr>slots = [CreateTemporalSlot (Number 0) (Number 3599),
       CreateTemporalSlot (Number 3600) (Number 7199)], overflow = []\<rparr>) = (Inr (), Some doc') \<and>
      slots doc' = [CreateTemporalSlot (Number 0) (Number 3599),
       CreateTemporalSlot (Number 3600) (Number 7199), CreateTemporalSlot (Number 7200) (Number 10799)])"
  using SlotPassed_evicts_oldest [of 60 1 5000 "\<lparr>slots = [CreateTemporalSlot (Number 0) (Number 3599),
       CreateTemporalSlot (Number 3600) (Number 7199)], overflow = []\<rparr>"]
    SlotPassed_evicts_oldest [of 60 3 5000 "\<lparr>slots = [CreateTemporalSlot (Number 0) (Number 3599),
       CreateTemporalSlot (Number 3600) (Number 7199)], overflow = []\<rparr>"]
  by (auto simp add: drain_Nil tick_slot_def CreateTemporalSlot_def)

section \<open>The overflow buffer is drained\<close>

text \<open>
  Claim C5. Every tick on an existing document succeeds and stores an empty overflow
  buffer. Each of the four counters of the new slot is the number of buffered events of
  that type, whatever their time stamps are; the new slot is the last stored slot when at
  least one slot is retained.
\<close>

theorem SlotPassed_drains_overflow:
  "\<exists>doc'. SlotPassed timespan size' now (Some doc) = (Inr (), Some doc') \<and>
      overflow doc' = [] \<and>
      WALK (drain (overflow doc) (tick_slot timespan now (slots doc))) = buffered ''WALK'' (overflow doc) \<and>
      WHEELS (drain (overflow doc) (tick_slot timespan now (slots doc))) = buffered ''WHEELS'' (overflow doc) \<and>
      TRANSIT (drain (overflow doc) (tick_slot timespan now (slots doc))) = buffered ''TRANSIT'' (overflow doc) \<and>
      CAR (drain (overflow doc) (tick_slot timespan now (slots doc))) = buffered ''CAR'' (overflow doc) \<and>
      (0 < size' \<longrightarrow> last (slots doc') = drain (overflow doc) (tick_slot timespan now (slots doc)))"
  by (simp add: SlotPassed_Some drain_counters tick_slot_counters)

text \<open>Three buffered events, one of them with a time stamp far outside the new slot.\<close>

theorem SlotPassed_drains_overflow_witness:
  "\<exists>doc'. SlotPassed 60 3 5000 (Some \<lparr>slots = [CreateTemporalSlot (Number 0) (Number 3599)],
       overflow = [\<lparr>type = ''CAR'', timestamp = 7\<rparr>, \<lparr>type = ''WALK'', timestamp = 99999\<rparr>,
                   \<lparr>type = ''CAR'', timestamp = 3700\<rparr>]\<rparr>) = (Inr (), Some doc') \<and>
      overflow doc' = [] \<and>
      last (slots doc') = \<lparr>bounds = Bounds (Number 3600) (Number 7199),
                            WALK = 1, WHEELS = 0, TRANSIT = 0, CAR = 2, props = []\<rparr>"
  using SlotPassed_drains_overflow [of 60 3 5000 "\<lparr>slots = [CreateTemporalSlot (Number 0) (Number 3599)],
       overflow = [\<lparr>type = ''CAR'', timestamp = 7\<rparr>, \<lparr>type = ''WALK'', timestamp = 99999\<rparr>,
                   \<lparr>type = ''CAR'', timestamp = 3700\<rparr>]\<rparr>"]
  by (auto simp add: drain_def increment_def tick_slot_def CreateTemporalSlot_def)

section \<open>The new slot survives the eviction\<close>

text \<open>
  Claim C10. When at least one slot is retained, the array still ends with the reference
  \<^verbatim>\<open>nextSlot\<close> after the eviction, so the stored slots are not empty, the last stored
  slot is the new slot as the loop over the overflow buffer has left it, and its four
  counters are the numbers of buffered events of each type.
\<close>

theorem SlotPassed_keeps_new_slot:
  assumes "1 \<le> size'"
  shows "last (evict size' (snd (load (slots doc)) @ [length (slots doc)])) = length (slots doc) \<and>
    (\<exists>doc'. SlotPassed timespan size' now (Some doc) = (Inr (), Some doc') \<and>
      slots doc' \<noteq> [] \<and>
      last (slots doc') = drain (overflow doc) (tick_slot timespan now (slots doc)) \<and>
      WALK (last (slots doc')) = buffered ''WALK'' (overflow doc) \<and>
      WHEELS (last (slots doc')) = buffered ''WHEELS'' (overflow doc) \<and>
      TRANSIT (last (slots doc')) = buffered ''TRANSIT'' (overflow doc) \<and>
      CAR (last (slots doc')) = buffered ''CAR'' (overflow doc))"
  using assms
  by (simp add: SlotPassed_Some drain_counters tick_slot_counters evict_drop load_def)

text \<open>One retained slot: the old slot is evicted and the new one holds the buffered event.\<close>

theorem SlotPassed_keeps_new_slot_witness:
  "\<exists>doc'. SlotPassed 60 1 5000 (Some \<lparr>slots = [CreateTemporalSlot (Number 0) (Number 3599)],
       overflow = [\<lparr>type = ''CAR'', timestamp = 7\<rparr>]\<rparr>) = (Inr (), Some doc') \<and>
      slots doc' = [\<lparr>bounds = Bounds (Number 3600) (Number 7199),
                            WALK = 0, WHEELS = 0, TRANSIT = 0, CAR = 1, props = []\<rparr>]"
proof -
  have "(1::nat) \<le> 1" by simp
  from SlotPassed_keeps_new_slot [OF this, of "\<lparr>slots = [CreateTemporalSlot (Number 0) (Number 3599)],
       overflow = [\<lparr>type = ''CAR'', timestamp = 7\<rparr>]\<rparr>" 60 5000]
  obtain doc' where run: "SlotPassed 60 1 5000 (Some \<lparr>slots = [CreateTemporalSlot (Number 0) (Number 3599)],
       overflow = [\<lparr>type = ''CAR'', timestamp = 7\<rparr>]\<rparr>) = (Inr (), Some doc')"
    by auto
  then have "slots doc' = [\<lparr>bounds = Bounds (Number 3600) (Number 7199),
                            WALK = 0, WHEELS = 0, TRANSIT = 0, CAR = 1, props = []\<rparr>]"
    by (auto simp add: SlotPassed_Some drain_def increment_def tick_slot_def CreateTemporalSlot_def)
  with run show ?thesis by blast
qed

section \<open>The shares of the view\<close>

text \<open>
  Claim C8, amended. The mapper sums each of the four counters over the stored slots and
  returns each sum divided by the sum of the four sums; for the single slot with
  \<^verbatim>\<open>WALK\<close> 3 and \<^verbatim>\<open>WHEELS\<close> 1 the shares are 0.75, 0.25, 0 and 0. The field
  \<^verbatim>\<open>updated\<close> is the reading of the clock: it is after a previous time stamp exactly when
  that reading is.
\<close>

theorem percentages_are_shares:
  "ConvertTemporalAggregationToPercentages Date_now aggregate =
     \<lparr>WALK_share = js_div (sum_list (map WALK (slots aggregate)))
        (sum_list (map WALK (slots aggregate)) + sum_list (map WHEELS (slots aggregate)) +
         sum_list (map TRANSIT (slots aggregate)) + sum_list (map CAR (slots aggregate))),
      WHEELS_share = js_div (sum_list (map WHEELS (slots aggregate)))
        (sum_list (map WALK (slots aggregate)) + sum_list (map WHEELS (slots aggregate)) +
         sum_list (map TRANSIT (slots aggregate)) + sum_list (map CAR (slots aggregate))),
      TRANSIT_share = js_div (sum_list (map TRANSIT (slots aggregate)))
        (sum_list (map WALK (slots aggregate)) + sum_list (map WHEELS (slots aggregate)) +
         sum_list (map TRANSIT (slots aggregate)) + sum_list (map CAR (slots aggregate))),
      CAR_share = js_div (sum_list (map CAR (slots aggregate)))
        (sum_list (map WALK (slots aggregate)) + sum_list (map WHEELS (slots aggregate)) +
         sum_list (map TRANSIT (slots aggregate)) + sum_list (map CAR (slots aggregate))),
      updated = Date_now\<rparr> \<and>
   ConvertTemporalAggregationToPercentages Date_now
     \<lparr>slots = [\<lparr>bounds = b, WALK = 3, WHEELS = 1, TRANSIT = 0, CAR = 0, props = p\<rparr>],
      overflow = buffer\<rparr> =
     \<lparr>WALK_share = Ratio 0.75, WHEELS_share = Ratio 0.25, TRANSIT_share = Ratio 0,
      CAR_share = Ratio 0, updated = Date_now\<rparr> \<and>
   (previous < updated (ConvertTemporalAggregationToPercentages Date_now aggregate))
     = (previous < Date_now)"
  by (simp add: ConvertTemporalAggregationToPercentages_def totals_of_sums Let_def js_div_def)

text \<open>
  Claim C8 as stated promises a time stamp strictly after the previous one. The mapper
  does not see the previous time stamp: with a previous time stamp of 1000 and a clock
  that reads 1000 the shares are the same and \<^verbatim>\<open>updated\<close> is not later.
\<close>

theorem updated_not_later_counterexample:
  "ConvertTemporalAggregationToPercentages 1000
     \<lparr>slots = [\<lparr>bounds = Bounds (Number 0) (Number 3599), WALK = 3, WHEELS = 1, TRANSIT = 0,
                 CAR = 0, props = []\<rparr>], overflow = []\<rparr> =
     \<lparr>WALK_share = Ratio 0.75, WHEELS_share = Ratio 0.25, TRANSIT_share = Ratio 0,
      CAR_share = Ratio 0, updated = 1000\<rparr> \<and>
   \<not> 1000 < updated (ConvertTemporalAggregationToPercentages 1000
     \<lparr>slots = [\<lparr>bounds = Bounds (Number 0) (Number 3599), WALK = 3, WHEELS = 1, TRANSIT = 0,
                 CAR = 0, props = []\<rparr>], overflow = []\<rparr>)"
  by (simp add: ConvertTemporalAggregationToPercentages_def totals_of_sums Let_def js_div_def)

section \<open>The view of an aggregation without counts\<close>

text \<open>
  Claim C9. When every stored slot has its four counters at zero, which includes the
  document without slots, the four totals and so the divisor are zero, the mapper divides
  all the same, and each share is \<^verbatim>\<open>NaN\<close>, the value of \<^verbatim>\<open>0 / 0\<close>.
\<close>

theorem zero_totals_divide_by_zero:
  assumes "\<forall>slot \<in> set (slots aggregate). all_zero slot"
  shows "totals_of (slots aggregate) = (0, 0, 0, 0) \<and>
    ConvertTemporalAggregationToPercentages Date_now aggregate =
      \<lparr>WALK_share = QNaN, WHEELS_share = QNaN, TRANSIT_share = QNaN,
       CAR_share = QNaN, updated = Date_now\<rparr>"
proof -
  from assms have z: "sum_list (map WALK (slots aggregate)) = 0"
    "sum_list (map WHEELS (slots aggregate)) = 0"
    "sum_list (map TRANSIT (slots aggregate)) = 0"
    "sum_list (map CAR (slots aggregate)) = 0"
    by (simp_all add: all_zero_def sum_list_zero)
  then have t: "totals_of (slots aggregate) = (0, 0, 0, 0)"
    by (simp add: totals_of_sums)
  then show ?thesis
    by (simp add: ConvertTemporalAggregationToPercentages_def Let_def js_div_def)
qed

text \<open>The document without slots and a document with two empty slots.\<close>

theorem zero_totals_divide_by_zero_witness:
  "ConvertTemporalAggregationToPercentages 1000 \<lparr>slots = [], overflow = []\<rparr> =
      \<lparr>WALK_share = QNaN, WHEELS_share = QNaN, TRANSIT_share = QNaN, CAR_share = QNaN, updated = 1000\<rparr> \<and>
   ConvertTemporalAggregationToPercentages 1000
      \<lparr>slots = [CreateTemporalSlot (Number 0) (Number 3599), CreateTemporalSlot (Number 3600) (Number 7199)],
       overflow = []\<rparr> =
      \<lparr>WALK_share = QNaN, WHEELS_share = QNaN, TRANSIT_share = QNaN, CAR_share = QNaN, updated = 1000\<rparr>"
  using zero_totals_divide_by_zero [of "\<lparr>slots = [], overflow = []\<rparr>" 1000]
    zero_totals_divide_by_zero [of "\<lparr>slots = [CreateTemporalSlot (Number 0) (Number 3599),
       CreateTemporalSlot (Number 3600) (Number 7199)], overflow = []\<rparr>" 1000]
  by (simp add: all_zero_def CreateTemporalSlot_def)

end
